theory Spec2Isabelle
  imports Main "HOL-Library.Word"
begin

unbundle bit_operations_syntax

section \<open>Encryption policy functions of fs/crypto/policy.c\<close>

text \<open>
  A shallow embedding of \<^verbatim>\<open>fs/crypto/policy.c\<close>. Every C function of the file that
  a property below talks about is one definition with the same name. A C \<^verbatim>\<open>int\<close>
  that carries either a byte count or a negated errno is an \<open>int\<close> (no arithmetic is done
  on it, only comparisons); the \<^verbatim>\<open>u8\<close> fields of the records are 8-bit words, so
  that the masking of flag bits is bitwise. A pointer that may be \<^verbatim>\<open>NULL\<close> is an
  \<open>option\<close>. A function that writes through a pointer returns the new value next to
  its \<^verbatim>\<open>int\<close> result.
\<close>

subsection \<open>Constants of the C library and of the kernel ABI\<close>

type_synonym u8 = "8 word"

text \<open>The errno values of \<^verbatim>\<open>include/uapi/asm-generic/errno-base.h\<close> and
  \<^verbatim>\<open>errno.h\<close>.\<close>

definition ENOENT :: int where "ENOENT = 2"
definition EACCES :: int where "EACCES = 13"
definition EFAULT :: int where "EFAULT = 14"
definition EEXIST :: int where "EEXIST = 17"
definition ENOTDIR :: int where "ENOTDIR = 20"
definition EINVAL :: int where "EINVAL = 22"
definition ERANGE :: int where "ERANGE = 34"
definition ENOTEMPTY :: int where "ENOTEMPTY = 39"
definition ENODATA :: int where "ENODATA = 61"
definition ENOKEY :: int where "ENOKEY = 126"

text \<open>The file type macros of \<^verbatim>\<open>include/uapi/linux/stat.h\<close> on a 16-bit
  \<^verbatim>\<open>umode_t\<close>.\<close>

definition S_IFMT :: "16 word" where "S_IFMT = 0xF000"
definition S_IFLNK :: "16 word" where "S_IFLNK = 0xA000"
definition S_IFREG :: "16 word" where "S_IFREG = 0x8000"
definition S_IFDIR :: "16 word" where "S_IFDIR = 0x4000"

definition S_ISLNK :: "16 word \<Rightarrow> bool" where
  "S_ISLNK m = (m AND S_IFMT = S_IFLNK)"
definition S_ISREG :: "16 word \<Rightarrow> bool" where
  "S_ISREG m = (m AND S_IFMT = S_IFREG)"
definition S_ISDIR :: "16 word \<Rightarrow> bool" where
  "S_ISDIR m = (m AND S_IFMT = S_IFDIR)"

subsection \<open>The records\<close>

text \<open>Modelled from the spec: the header that fixes the array sizes is not among the
  sources; section 3 of the specification gives a descriptor of exactly 8 bytes and a
  nonce of exactly 16 bytes, and section 6 a context record of a one-byte format tag,
  three one-byte mode and flag fields, the descriptor and the nonce.\<close>

definition FS_KEY_DESCRIPTOR_SIZE :: nat where "FS_KEY_DESCRIPTOR_SIZE = 8"
definition FS_KEY_DERIVATION_NONCE_SIZE :: nat where "FS_KEY_DERIVATION_NONCE_SIZE = 16"
definition sizeof_fscrypt_context :: nat where
  "sizeof_fscrypt_context = 4 + FS_KEY_DESCRIPTOR_SIZE + FS_KEY_DERIVATION_NONCE_SIZE"

text \<open>\<^verbatim>\<open>struct fscrypt_policy\<close>, \<^verbatim>\<open>struct fscrypt_context\<close> and the fields of
  \<^verbatim>\<open>struct fscrypt_info\<close> that policy.c reads. The two first structs have fields of
  the same names in C; here the fields of the policy start with \<open>pol_\<close> and those of the
  context with \<open>ctx_\<close>.\<close>

record fscrypt_policy =
  pol_version :: u8
  pol_contents_encryption_mode :: u8
  pol_filenames_encryption_mode :: u8
  pol_flags :: u8
  pol_master_key_descriptor :: "u8 list"

record fscrypt_context =
  ctx_format :: u8
  ctx_contents_encryption_mode :: u8
  ctx_filenames_encryption_mode :: u8
  ctx_flags :: u8
  ctx_master_key_descriptor :: "u8 list"
  ctx_nonce :: "u8 list"

record fscrypt_info =
  ci_data_mode :: u8
  ci_filename_mode :: u8
  ci_flags :: u8
  ci_master_key_descriptor :: "u8 list"
  ci_raw_key :: "u8 list"
  ci_hashed_info :: nat

text \<open>\<^verbatim>\<open>memcmp(a, b, n) == 0\<close> on two byte arrays.\<close>

definition memcmp_eq :: "u8 list \<Rightarrow> u8 list \<Rightarrow> nat \<Rightarrow> bool" where
  "memcmp_eq a b n = (take n a = take n b)"

text \<open>What policy.c reads of \<^verbatim>\<open>struct inode\<close>: the mode, the inode number, the
  super block it points to (an address), the results of the macros
  \<^verbatim>\<open>IS_ENCRYPTED\<close> and \<^verbatim>\<open>IS_DEADDIR\<close> on its flags, and the pointer to its
  resolved crypto info. \<open>i_private\<close> is the state the filesystem keeps for the inode (where
  its encryption context is stored); only the filesystem's own operations read or write it.\<close>

type_synonym sb_ptr = nat
type_synonym void_ptr = "nat option"

record 'p inode =
  i_mode :: "16 word"
  i_ino :: "64 word"
  i_sb :: sb_ptr
  IS_ENCRYPTED :: bool
  IS_DEADDIR :: bool
  i_crypt_info :: "fscrypt_info option"
  i_private :: 'p

text \<open>\<^verbatim>\<open>struct fscrypt_operations\<close>, the callbacks of the filesystem. A callback
  that fills a buffer returns the buffer with its \<^verbatim>\<open>int\<close>; one that changes the
  inode returns the inode.\<close>

record 'p fscrypt_operations =
  get_context :: "'p inode \<Rightarrow> nat \<Rightarrow> int \<times> fscrypt_context"
  set_context :: "'p inode \<Rightarrow> fscrypt_context \<Rightarrow> nat \<Rightarrow> void_ptr \<Rightarrow> int \<times> 'p inode"
  empty_dir :: "'p inode \<Rightarrow> bool"

text \<open>Everything policy.c uses and does not define is a field of the environment: the
  constants and inline functions of \<^verbatim>\<open>fscrypt_private.h\<close> and of the uapi header,
  the hardware inline encryption query of \<^verbatim>\<open>linux/hie.h\<close>, the operations table of
  each super block, the key setup and the crypto info accessor of keyinfo.c, the random
  number generator, the caller's rights, the mount's write access, the boot device, the
  build configuration and the constants of the block layer's crypto annotation. No
  property below fixes any of them, except where it says so.\<close>

record 'p fscrypt_env =
  FS_ENCRYPTION_MODE_INVALID :: u8
  FS_ENCRYPTION_MODE_AES_256_XTS :: u8
  FS_ENCRYPTION_MODE_PRIVATE :: u8
  FS_POLICY_FLAGS_VALID :: u8
  FS_POLICY_FLAG_IV_INO_LBLK_32 :: u8
  FS_ENCRYPTION_CONTEXT_FORMAT_V1 :: u8
  fscrypt_valid_enc_modes :: "u8 \<Rightarrow> u8 \<Rightarrow> bool"
  fscrypt_data_crypt_mode :: "'p inode \<Rightarrow> u8 \<Rightarrow> u8"
  hie_is_capable :: "sb_ptr \<Rightarrow> bool"
  s_cop :: "sb_ptr \<Rightarrow> 'p fscrypt_operations"
  fscrypt_get_encryption_info :: "'p inode \<Rightarrow> int \<times> 'p inode"
  get_random_bytes :: "nat \<Rightarrow> u8 list"
  inode_owner_or_capable :: "'p inode \<Rightarrow> bool"
  mnt_want_write_file :: "'p inode \<Rightarrow> int"
  CONFIG_MTK_EMMC_HW_CQ :: bool
  get_boot_type :: int
  BC_CRYPT :: "32 word"
  BC_AES_256_XTS :: "32 word"
  FS_AES_256_XTS_KEY_SIZE :: nat
  BIO_BC_INFO_GET :: nat
  fscrypt_crypt_info_act :: "fscrypt_info \<Rightarrow> nat \<Rightarrow> fscrypt_info option"

subsection \<open>Setting a policy\<close>

text \<open>\<^verbatim>\<open>is_encryption_context_consistent_with_policy\<close> (lines 21 to 39).\<close>

definition is_encryption_context_consistent_with_policy ::
  "'p fscrypt_env \<Rightarrow> fscrypt_context \<Rightarrow> fscrypt_policy \<Rightarrow> 'p inode \<Rightarrow> bool" where
  "is_encryption_context_consistent_with_policy e ctx policy inode =
     (if ctx_contents_encryption_mode ctx \<noteq> pol_contents_encryption_mode policy \<and>
         \<not> (hie_is_capable e (i_sb inode) \<and>
            ctx_contents_encryption_mode ctx = FS_ENCRYPTION_MODE_PRIVATE e)
      then False
      else memcmp_eq (ctx_master_key_descriptor ctx) (pol_master_key_descriptor policy)
             FS_KEY_DESCRIPTOR_SIZE \<and>
           ctx_flags ctx = pol_flags policy \<and>
           ctx_filenames_encryption_mode ctx = pol_filenames_encryption_mode policy)"

text \<open>\<^verbatim>\<open>create_encryption_context_from_policy\<close> (lines 41 to 70). The context is
  passed to the filesystem's \<^verbatim>\<open>set_context\<close> with a \<^verbatim>\<open>NULL\<close> last argument.\<close>

definition create_encryption_context_from_policy ::
  "'p fscrypt_env \<Rightarrow> 'p inode \<Rightarrow> fscrypt_policy \<Rightarrow> int \<times> 'p inode" where
  "create_encryption_context_from_policy e inode policy =
     (if \<not> fscrypt_valid_enc_modes e (pol_contents_encryption_mode policy)
             (pol_filenames_encryption_mode policy)
      then (- EINVAL, inode)
      else if pol_flags policy AND NOT (FS_POLICY_FLAGS_VALID e) \<noteq> 0
      then (- EINVAL, inode)
      else if pol_flags policy AND FS_POLICY_FLAG_IV_INO_LBLK_32 e \<noteq> 0 \<and>
              pol_contents_encryption_mode policy \<noteq> FS_ENCRYPTION_MODE_PRIVATE e
      then (- EINVAL, inode)
      else set_context (s_cop e (i_sb inode)) inode
             \<lparr> ctx_format = FS_ENCRYPTION_CONTEXT_FORMAT_V1 e,
               ctx_contents_encryption_mode =
                 fscrypt_data_crypt_mode e inode (pol_contents_encryption_mode policy),
               ctx_filenames_encryption_mode = pol_filenames_encryption_mode policy,
               ctx_flags = pol_flags policy,
               ctx_master_key_descriptor =
                 take FS_KEY_DESCRIPTOR_SIZE (pol_master_key_descriptor policy),
               ctx_nonce = get_random_bytes e FS_KEY_DERIVATION_NONCE_SIZE \<rparr>
             sizeof_fscrypt_context None)"

text \<open>\<^verbatim>\<open>fscrypt_ioctl_set_policy\<close> (lines 72 to 120). \<open>arg\<close> is what
  \<^verbatim>\<open>copy_from_user\<close> reads: \<open>None\<close> when the user address faults. The inode is the
  one of the open file. \<^verbatim>\<open>ret == sizeof(ctx)\<close> compares after conversion to an
  unsigned type, under which no negative \<^verbatim>\<open>ret\<close> equals the size.\<close>

definition fscrypt_ioctl_set_policy ::
  "'p fscrypt_env \<Rightarrow> 'p inode \<Rightarrow> fscrypt_policy option \<Rightarrow> int \<times> 'p inode" where
  "fscrypt_ioctl_set_policy e inode arg =
     (case arg of
        None \<Rightarrow> (- EFAULT, inode)
      | Some policy \<Rightarrow>
          if \<not> inode_owner_or_capable e inode then (- EACCES, inode)
          else if pol_version policy \<noteq> 0 then (- EINVAL, inode)
          else if mnt_want_write_file e inode \<noteq> 0
          then (mnt_want_write_file e inode, inode)
          else
            (case get_context (s_cop e (i_sb inode)) inode sizeof_fscrypt_context of
               (ret, ctx) \<Rightarrow>
                 if ret = - ENODATA then
                   (if \<not> S_ISDIR (i_mode inode) then (- ENOTDIR, inode)
                    else if IS_DEADDIR inode then (- ENOENT, inode)
                    else if \<not> empty_dir (s_cop e (i_sb inode)) inode
                    then (- ENOTEMPTY, inode)
                    else create_encryption_context_from_policy e inode policy)
                 else if ret = int sizeof_fscrypt_context \<and>
                         is_encryption_context_consistent_with_policy e ctx policy inode
                 then (0, inode)
                 else if ret \<ge> 0 \<or> ret = - ERANGE then (- EEXIST, inode)
                 else (ret, inode)))"

subsection \<open>Reading a policy\<close>

text \<open>\<^verbatim>\<open>fscrypt_ioctl_get_policy\<close> (lines 123 to 159). \<open>arg_ok\<close> says whether
  \<^verbatim>\<open>copy_to_user\<close> can write the user's buffer; the policy written there is returned
  with the \<^verbatim>\<open>int\<close>.\<close>

definition fscrypt_ioctl_get_policy ::
  "'p fscrypt_env \<Rightarrow> 'p inode \<Rightarrow> bool \<Rightarrow> int \<times> fscrypt_policy option" where
  "fscrypt_ioctl_get_policy e inode arg_ok =
     (if \<not> IS_ENCRYPTED inode then (- ENODATA, None)
      else
        (case get_context (s_cop e (i_sb inode)) inode sizeof_fscrypt_context of
           (res, ctx) \<Rightarrow>
             if res < 0 \<and> res \<noteq> - ERANGE then (res, None)
             else if res \<noteq> int sizeof_fscrypt_context then (- EINVAL, None)
             else if ctx_format ctx \<noteq> FS_ENCRYPTION_CONTEXT_FORMAT_V1 e then (- EINVAL, None)
             else
               (let policy =
                      \<lparr> pol_version = 0,
                        pol_contents_encryption_mode =
                          (if S_ISDIR (i_mode inode) \<and>
                              ctx_contents_encryption_mode ctx \<noteq> FS_ENCRYPTION_MODE_INVALID e
                           then FS_ENCRYPTION_MODE_AES_256_XTS e
                           else ctx_contents_encryption_mode ctx),
                        pol_filenames_encryption_mode = ctx_filenames_encryption_mode ctx,
                        pol_flags = ctx_flags ctx,
                        pol_master_key_descriptor =
                          take FS_KEY_DESCRIPTOR_SIZE (ctx_master_key_descriptor ctx) \<rparr>
                in if \<not> arg_ok then (- EFAULT, None) else (0, Some policy))))"

subsection \<open>The permitted-context check\<close>

text \<open>The two comparisons that \<^verbatim>\<open>fscrypt_has_permitted_context\<close> returns: the one of
  lines 226 to 237 on two resolved crypto infos, and the one of lines 255 to 265 on two
  contexts.\<close>

definition same_policy_infos :: "'p fscrypt_env \<Rightarrow> fscrypt_info \<Rightarrow> fscrypt_info \<Rightarrow> bool" where
  "same_policy_infos e parent_ci child_ci =
     (memcmp_eq (ci_master_key_descriptor parent_ci) (ci_master_key_descriptor child_ci)
        FS_KEY_DESCRIPTOR_SIZE \<and>
      ci_data_mode parent_ci = ci_data_mode child_ci \<and>
      ci_filename_mode parent_ci = ci_filename_mode child_ci \<and>
      ci_flags parent_ci AND NOT (FS_POLICY_FLAG_IV_INO_LBLK_32 e) =
        ci_flags child_ci AND NOT (FS_POLICY_FLAG_IV_INO_LBLK_32 e))"

definition same_policy_contexts ::
  "'p fscrypt_env \<Rightarrow> fscrypt_context \<Rightarrow> fscrypt_context \<Rightarrow> bool" where
  "same_policy_contexts e parent_ctx child_ctx =
     (memcmp_eq (ctx_master_key_descriptor parent_ctx) (ctx_master_key_descriptor child_ctx)
        FS_KEY_DESCRIPTOR_SIZE \<and>
      ctx_contents_encryption_mode parent_ctx = ctx_contents_encryption_mode child_ctx \<and>
      ctx_filenames_encryption_mode parent_ctx = ctx_filenames_encryption_mode child_ctx \<and>
      ctx_flags parent_ctx AND NOT (FS_POLICY_FLAG_IV_INO_LBLK_32 e) =
        ctx_flags child_ctx AND NOT (FS_POLICY_FLAG_IV_INO_LBLK_32 e))"

text \<open>\<^verbatim>\<open>fscrypt_has_permitted_context\<close> (lines 181 to 266). The key setup may install
  a crypto info in the inode it is called on, so the two inodes are returned with the
  result. The operations table is the one of the parent's super block.\<close>

definition fscrypt_has_permitted_context ::
  "'p fscrypt_env \<Rightarrow> 'p inode \<Rightarrow> 'p inode \<Rightarrow> int \<times> 'p inode \<times> 'p inode" where
  "fscrypt_has_permitted_context e parent child =
     (let cops = s_cop e (i_sb parent) in
      if \<not> S_ISREG (i_mode child) \<and> \<not> S_ISDIR (i_mode child) \<and> \<not> S_ISLNK (i_mode child)
      then (1, parent, child)
      else if \<not> IS_ENCRYPTED parent then (1, parent, child)
      else if \<not> IS_ENCRYPTED child then (0, parent, child)
      else
        (case fscrypt_get_encryption_info e parent of
           (res, parent1) \<Rightarrow>
             if res \<noteq> 0 then (0, parent1, child)
             else
               (case fscrypt_get_encryption_info e child of
                  (res, child1) \<Rightarrow>
                    if res \<noteq> 0 then (0, parent1, child1)
                    else
                      (case (i_crypt_info parent1, i_crypt_info child1) of
                         (Some parent_ci, Some child_ci) \<Rightarrow>
                           (of_bool (same_policy_infos e parent_ci child_ci), parent1, child1)
                       | _ \<Rightarrow>
                           (case get_context cops parent1 sizeof_fscrypt_context of
                              (res, parent_ctx) \<Rightarrow>
                                if res \<noteq> int sizeof_fscrypt_context then (0, parent1, child1)
                                else
                                  (case get_context cops child1 sizeof_fscrypt_context of
                                     (res, child_ctx) \<Rightarrow>
                                       if res \<noteq> int sizeof_fscrypt_context
                                       then (0, parent1, child1)
                                       else
                                         (of_bool
                                            (same_policy_contexts e
                                               (parent_ctx\<lparr>ctx_contents_encryption_mode :=
                                                  fscrypt_data_crypt_mode e parent1
                                                    (ctx_contents_encryption_mode parent_ctx)\<rparr>)
                                               (child_ctx\<lparr>ctx_contents_encryption_mode :=
                                                  fscrypt_data_crypt_mode e child1
                                                    (ctx_contents_encryption_mode child_ctx)\<rparr>)),
                                          parent1, child1)))))))"

subsection \<open>Inheriting a context\<close>

definition BOOTDEV_SDMMC :: int where "BOOTDEV_SDMMC = 1"
definition BOOTDEV_UFS :: int where "BOOTDEV_UFS = 2"

text \<open>\<^verbatim>\<open>fscrypt_force_iv_ino_lblk_32\<close> (lines 271 to 278), with the
  \<^verbatim>\<open>#ifdef\<close> as a test of the configuration.\<close>

definition fscrypt_force_iv_ino_lblk_32 :: "'p fscrypt_env \<Rightarrow> bool" where
  "fscrypt_force_iv_ino_lblk_32 e =
     (if CONFIG_MTK_EMMC_HW_CQ e then get_boot_type e = BOOTDEV_SDMMC else False)"

text \<open>\<^verbatim>\<open>fscrypt_inherit_context\<close> (lines 289 to 324). The key setup is called on the
  parent and, for a preload, on the child, and the filesystem writes the child, so both
  inodes are returned.\<close>

definition fscrypt_inherit_context ::
  "'p fscrypt_env \<Rightarrow> 'p inode \<Rightarrow> 'p inode \<Rightarrow> void_ptr \<Rightarrow> bool \<Rightarrow> int \<times> 'p inode \<times> 'p inode" where
  "fscrypt_inherit_context e parent child fs_data preload =
     (case fscrypt_get_encryption_info e parent of
        (res, parent1) \<Rightarrow>
          if res < 0 then (res, parent1, child)
          else
            (case i_crypt_info parent1 of
               None \<Rightarrow> (- ENOKEY, parent1, child)
             | Some ci \<Rightarrow>
                 (let ctx =
                        \<lparr> ctx_format = FS_ENCRYPTION_CONTEXT_FORMAT_V1 e,
                          ctx_contents_encryption_mode = ci_data_mode ci,
                          ctx_filenames_encryption_mode = ci_filename_mode ci,
                          ctx_flags =
                            (if ci_data_mode ci = FS_ENCRYPTION_MODE_PRIVATE e \<and>
                                fscrypt_force_iv_ino_lblk_32 e
                             then ci_flags ci OR FS_POLICY_FLAG_IV_INO_LBLK_32 e
                             else ci_flags ci),
                          ctx_master_key_descriptor =
                            take FS_KEY_DESCRIPTOR_SIZE (ci_master_key_descriptor ci),
                          ctx_nonce = get_random_bytes e FS_KEY_DERIVATION_NONCE_SIZE \<rparr>
                  in case set_context (s_cop e (i_sb parent1)) child ctx
                            sizeof_fscrypt_context fs_data of
                       (res, child1) \<Rightarrow>
                         if res \<noteq> 0 then (res, parent1, child1)
                         else if preload
                         then (case fscrypt_get_encryption_info e child1 of
                                 (res, child2) \<Rightarrow> (res, parent1, child2))
                         else (0, parent1, child1))))"

subsection \<open>Binding a block request\<close>

text \<open>The crypto annotation of \<^verbatim>\<open>struct bio\<close>, with the fields that
  \<^verbatim>\<open>fscrypt_set_bio_ctx\<close> writes. \<open>bc_info_act\<close> says whether the function pointer is
  set to \<^verbatim>\<open>fscrypt_crypt_info_act\<close>.\<close>

record bio_crypt_ctx =
  bc_flags :: "32 word"
  bc_key_size :: nat
  bc_ino :: "64 word"
  bc_sb :: "sb_ptr option"
  bc_info_act :: bool
  bc_info :: "fscrypt_info option"
  hashed_info :: nat

record bio =
  bi_crypt_ctx :: bio_crypt_ctx

text \<open>Modelled from the spec: \<^verbatim>\<open>bio_bcf_set\<close> and \<^verbatim>\<open>bio_bcf_clear\<close> are
  inline functions of a block layer header that is not among the sources. Section 4.7 of
  the specification has the first mark the request with the given annotation and the
  second clear it: they set and clear the given bits of the flags.\<close>

definition bio_bcf_set :: "bio \<Rightarrow> 32 word \<Rightarrow> bio" where
  "bio_bcf_set b f = b\<lparr>bi_crypt_ctx := (bi_crypt_ctx b)\<lparr>bc_flags := bc_flags (bi_crypt_ctx b) OR f\<rparr>\<rparr>"

definition bio_bcf_clear :: "bio \<Rightarrow> 32 word \<Rightarrow> bio" where
  "bio_bcf_clear b f =
     b\<lparr>bi_crypt_ctx := (bi_crypt_ctx b)\<lparr>bc_flags := bc_flags (bi_crypt_ctx b) AND NOT f\<rparr>\<rparr>"

text \<open>The two \<^verbatim>\<open>WARN_ON\<close> of \<^verbatim>\<open>fscrypt_set_bio_ctx\<close>: each one that fires is
  logged, and the function goes on.\<close>

datatype warning = WARN_ON_not_hie_capable | WARN_ON_no_bc_info

text \<open>\<^verbatim>\<open>fscrypt_set_bio_ctx\<close> (lines 327 to 363), without the debug print. It returns
  its \<^verbatim>\<open>int\<close>, the request as it leaves it and the warnings it logged.\<close>

definition fscrypt_set_bio_ctx ::
  "'p fscrypt_env \<Rightarrow> 'p inode option \<Rightarrow> bio option \<Rightarrow> int \<times> bio option \<times> warning list" where
  "fscrypt_set_bio_ctx e inode_ptr bio_ptr =
     (case (inode_ptr, bio_ptr) of
        (Some inode, Some b) \<Rightarrow>
          (case i_crypt_info inode of
             Some ci \<Rightarrow>
               if S_ISREG (i_mode inode) \<and> ci_data_mode ci = FS_ENCRYPTION_MODE_PRIVATE e
               then
                 (let w1 = (if \<not> hie_is_capable e (i_sb inode)
                            then [WARN_ON_not_hie_capable] else []);
                      b1 = bio_bcf_set b (BC_CRYPT e OR BC_AES_256_XTS e);
                      c = (bi_crypt_ctx b1)
                            \<lparr> bc_key_size := FS_AES_256_XTS_KEY_SIZE e,
                              bc_ino := i_ino inode,
                              bc_sb := Some (i_sb inode),
                              bc_info_act := True,
                              bc_info := fscrypt_crypt_info_act e ci (BIO_BC_INFO_GET e),
                              hashed_info := ci_hashed_info ci \<rparr>;
                      w2 = (if bc_info c = None then [WARN_ON_no_bc_info] else [])
                  in (0, Some (b1\<lparr>bi_crypt_ctx := c\<rparr>), w1 @ w2))
               else (- ENOENT, Some (bio_bcf_clear b (BC_CRYPT e)), [])
           | None \<Rightarrow> (- ENOENT, Some (bio_bcf_clear b (BC_CRYPT e)), []))
      | _ \<Rightarrow> (- ENOENT, bio_ptr, []))"

subsection \<open>The comparison rule in the specification's words\<close>

text \<open>Section 4.2 of the specification, \<open>sameEffectivePolicy(a, b, maskedFlags)\<close>, for a
  stored context \<open>a\<close> and a proposed policy \<open>b\<close>: descriptors byte-equal, filename modes
  equal, flags equal after both are ANDed with the complement of \<open>maskedFlags\<close>, and
  content modes equal, except that a stored hardware-private mode equals any declared
  mode on a hardware-capable filesystem. It is compared with the code below.\<close>

definition sameEffectivePolicy_spec ::
  "u8 \<Rightarrow> bool \<Rightarrow> fscrypt_context \<Rightarrow> fscrypt_policy \<Rightarrow> u8 \<Rightarrow> bool" where
  "sameEffectivePolicy_spec hardware_private hardware_capable a b maskedFlags =
     (take 8 (ctx_master_key_descriptor a) = take 8 (pol_master_key_descriptor b) \<and>
      ctx_filenames_encryption_mode a = pol_filenames_encryption_mode b \<and>
      ctx_flags a AND NOT maskedFlags = pol_flags b AND NOT maskedFlags \<and>
      (ctx_contents_encryption_mode a = pol_contents_encryption_mode b \<or>
       (hardware_capable \<and> ctx_contents_encryption_mode a = hardware_private)))"

subsection \<open>A concrete environment\<close>

text \<open>An environment with concrete values, on which the theorems below are instantiated:
  an in-memory filesystem that keeps at most one context per inode in \<open>i_private\<close>, on
  which every read of a stored context returns the full record and every write succeeds;
  a key setup that succeeds and installs nothing; super block 1 capable of hardware inline
  encryption and every other one not; hardware-private mode 127, standard mode 1, the
  IV-derivation-variant flag 0x10 among the valid flags 0x17.\<close>

definition zero_context :: fscrypt_context where
  "zero_context =
     \<lparr> ctx_format = 0, ctx_contents_encryption_mode = 0, ctx_filenames_encryption_mode = 0,
       ctx_flags = 0, ctx_master_key_descriptor = replicate 8 0, ctx_nonce = replicate 16 0 \<rparr>"

definition mem_cops :: "fscrypt_context option fscrypt_operations" where
  "mem_cops =
     \<lparr> get_context = (\<lambda>inode len. case i_private inode of
                          None \<Rightarrow> (- ENODATA, zero_context)
                        | Some c \<Rightarrow> (int sizeof_fscrypt_context, c)),
       set_context = (\<lambda>inode ctx len fs_data.
                        (0, inode\<lparr>IS_ENCRYPTED := True, i_private := Some ctx\<rparr>)),
       empty_dir = (\<lambda>inode. True) \<rparr>"

text \<open>Modelled from the spec: \<^verbatim>\<open>fscrypt_data_crypt_mode\<close> is an inline function of
  the absent header. Section 4.3 of the specification has the stored mode become
  hardware-private when the filesystem is hardware-capable, and section 4.2 calls the
  hardware path a silent substitution for the declared mode. Here every declared mode
  other than 0 (invalid/none) becomes mode 127 on super block 1, and stays what it is on
  every other super block. policy.c itself expects this substitution: on a capable
  filesystem its comparison accepts a stored hardware-private mode against any declared
  mode (lines 27 to 32), and the stored mode of a new context is the result of this
  function on the declared mode (lines 61 to 63).\<close>

definition data_crypt_mode_hie :: "'p inode \<Rightarrow> u8 \<Rightarrow> u8" where
  "data_crypt_mode_hie inode mode =
     (if mode = 0 then 0 else if i_sb inode = 1 then 127 else mode)"

definition sample_env :: "fscrypt_context option fscrypt_env" where
  "sample_env =
     \<lparr> FS_ENCRYPTION_MODE_INVALID = 0,
       FS_ENCRYPTION_MODE_AES_256_XTS = 1,
       FS_ENCRYPTION_MODE_PRIVATE = 127,
       FS_POLICY_FLAGS_VALID = 0x17,
       FS_POLICY_FLAG_IV_INO_LBLK_32 = 0x10,
       FS_ENCRYPTION_CONTEXT_FORMAT_V1 = 1,
       fscrypt_valid_enc_modes = (\<lambda>c f. (c = 1 \<or> c = 127) \<and> f = 4),
       fscrypt_data_crypt_mode = data_crypt_mode_hie,
       hie_is_capable = (\<lambda>sb. sb = 1),
       s_cop = (\<lambda>sb. mem_cops),
       fscrypt_get_encryption_info = (\<lambda>inode. (0, inode)),
       get_random_bytes = (\<lambda>n. replicate n 0x5A),
       inode_owner_or_capable = (\<lambda>inode. True),
       mnt_want_write_file = (\<lambda>inode. 0),
       CONFIG_MTK_EMMC_HW_CQ = True,
       get_boot_type = 1,
       BC_CRYPT = 1,
       BC_AES_256_XTS = 4,
       FS_AES_256_XTS_KEY_SIZE = 64,
       BIO_BC_INFO_GET = 1,
       fscrypt_crypt_info_act = (\<lambda>ci act. Some ci) \<rparr>"

definition sample_descriptor :: "u8 list" where
  "sample_descriptor = [1, 2, 3, 4, 5, 6, 7, 8]"

definition sample_policy :: "u8 \<Rightarrow> u8 \<Rightarrow> fscrypt_policy" where
  "sample_policy mode flags =
     \<lparr> pol_version = 0, pol_contents_encryption_mode = mode,
       pol_filenames_encryption_mode = 4, pol_flags = flags,
       pol_master_key_descriptor = sample_descriptor \<rparr>"

definition sample_context :: "u8 \<Rightarrow> u8 \<Rightarrow> fscrypt_context" where
  "sample_context mode flags =
     \<lparr> ctx_format = 1, ctx_contents_encryption_mode = mode,
       ctx_filenames_encryption_mode = 4, ctx_flags = flags,
       ctx_master_key_descriptor = sample_descriptor, ctx_nonce = replicate 16 0x5A \<rparr>"

definition sample_info :: "u8 \<Rightarrow> u8 \<Rightarrow> fscrypt_info" where
  "sample_info mode flags =
     \<lparr> ci_data_mode = mode, ci_filename_mode = 4, ci_flags = flags,
       ci_master_key_descriptor = sample_descriptor, ci_raw_key = replicate 64 0,
       ci_hashed_info = 0 \<rparr>"

text \<open>An inode of the in-memory filesystem: \<open>0x41ED\<close> is the mode of a directory,
  \<open>0x81A4\<close> of a regular file, \<open>0x21A4\<close> of a character device.\<close>

definition sample_inode ::
  "16 word \<Rightarrow> sb_ptr \<Rightarrow> fscrypt_info option \<Rightarrow> fscrypt_context option
     \<Rightarrow> fscrypt_context option inode" where
  "sample_inode mode sb ci stored =
     \<lparr> i_mode = mode, i_ino = 12, i_sb = sb, IS_ENCRYPTED = (stored \<noteq> None),
       IS_DEADDIR = False, i_crypt_info = ci, i_private = stored \<rparr>"

text \<open>The same environment on a filesystem whose read of the stored context fails with
  the given value, whatever the inode is.\<close>

definition read_error_env :: "int \<Rightarrow> fscrypt_context option fscrypt_env" where
  "read_error_env r =
     sample_env\<lparr>s_cop := \<lambda>sb. mem_cops\<lparr>get_context := \<lambda>inode len. (r, zero_context)\<rparr>\<rparr>"

definition sample_bio :: bio where
  "sample_bio =
     \<lparr> bi_crypt_ctx =
         \<lparr> bc_flags = 0, bc_key_size = 0, bc_ino = 0, bc_sb = None, bc_info_act = False,
           bc_info = None, hashed_info = 0 \<rparr> \<rparr>"

section \<open>Properties\<close>

lemmas errno_defs = ENOENT_def EACCES_def EFAULT_def EEXIST_def ENOTDIR_def EINVAL_def
  ERANGE_def ENOTEMPTY_def ENODATA_def ENOKEY_def
lemmas stat_defs = S_IFMT_def S_IFLNK_def S_IFREG_def S_IFDIR_def
  S_ISLNK_def S_ISREG_def S_ISDIR_def
lemmas size_defs = FS_KEY_DESCRIPTOR_SIZE_def FS_KEY_DERIVATION_NONCE_SIZE_def
  sizeof_fscrypt_context_def
lemmas sample_defs = zero_context_def mem_cops_def data_crypt_mode_hie_def sample_env_def
  sample_descriptor_def sample_policy_def sample_context_def sample_info_def
  sample_inode_def sample_bio_def read_error_env_def

subsection \<open>Setting a policy on a target that has a context\<close>

lemma consistent_unfold:
  "is_encryption_context_consistent_with_policy e ctx policy inode \<longleftrightarrow>
     (ctx_contents_encryption_mode ctx = pol_contents_encryption_mode policy \<or>
      (hie_is_capable e (i_sb inode) \<and>
       ctx_contents_encryption_mode ctx = FS_ENCRYPTION_MODE_PRIVATE e)) \<and>
     take 8 (ctx_master_key_descriptor ctx) = take 8 (pol_master_key_descriptor policy) \<and>
     ctx_flags ctx = pol_flags policy \<and>
     ctx_filenames_encryption_mode ctx = pol_filenames_encryption_mode policy"
  by (auto simp: is_encryption_context_consistent_with_policy_def memcmp_eq_def
      FS_KEY_DESCRIPTOR_SIZE_def)

text \<open>The comparison of the code is at least as strict as the one of the specification,
  whatever flags the latter masks.\<close>

lemma consistent_imp_spec:
  "is_encryption_context_consistent_with_policy e ctx policy inode \<Longrightarrow>
   sameEffectivePolicy_spec (FS_ENCRYPTION_MODE_PRIVATE e) (hie_is_capable e (i_sb inode))
     ctx policy masked"
  by (auto simp: consistent_unfold sameEffectivePolicy_spec_def)

text \<open>Once the caller's rights, the version and the mount's write access are checked, and
  the read of the stored context has not reported that there is none, the call is decided
  by the result of the read alone, and the inode is the one that was passed.\<close>

lemma set_policy_read:
  assumes "inode_owner_or_capable e inode" "pol_version policy = 0"
    and "mnt_want_write_file e inode = 0"
    and "get_context (s_cop e (i_sb inode)) inode sizeof_fscrypt_context = (ret, ctx)"
    and "ret \<noteq> - ENODATA"
  shows "fscrypt_ioctl_set_policy e inode (Some policy) =
           (if ret = 28 \<and> is_encryption_context_consistent_with_policy e ctx policy inode
            then (0, inode)
            else if ret \<ge> 0 \<or> ret = - ERANGE then (- EEXIST, inode)
            else (ret, inode))"
  using assms by (simp add: fscrypt_ioctl_set_policy_def size_defs)

text \<open>C1, as stated, fails. On the hardware-capable super block, a directory stores a
  context with the hardware-private mode and the IV-derivation-variant flag, and the
  proposed policy is the same but for that flag. The two are equal under the rule of
  section 4.2 with that flag masked, and they differ in that one bit only; the call
  returns \<open>-EEXIST\<close>, which is not success.\<close>

theorem set_policy_masked_flag_counterexample:
  "sameEffectivePolicy_spec (FS_ENCRYPTION_MODE_PRIVATE sample_env)
     (hie_is_capable sample_env 1) (sample_context 127 0x10) (sample_policy 127 0)
     (FS_POLICY_FLAG_IV_INO_LBLK_32 sample_env) \<and>
   ctx_flags (sample_context 127 0x10) XOR pol_flags (sample_policy 127 0) =
     FS_POLICY_FLAG_IV_INO_LBLK_32 sample_env \<and>
   fscrypt_ioctl_set_policy sample_env
     (sample_inode 0x41ED 1 None (Some (sample_context 127 0x10)))
     (Some (sample_policy 127 0)) =
   (- EEXIST, sample_inode 0x41ED 1 None (Some (sample_context 127 0x10))) \<and>
   - EEXIST \<noteq> (0 :: int)"
  by (simp add: fscrypt_ioctl_set_policy_def is_encryption_context_consistent_with_policy_def
      sameEffectivePolicy_spec_def sample_defs errno_defs size_defs stat_defs memcmp_eq_def)

text \<open>C1, as amended. For every call of \<^verbatim>\<open>fscrypt_ioctl_set_policy\<close> that passes the
  checks of the caller, the version and the mount, on a target whose context read returns
  a size (no error): the inode is left as it was, whatever the filesystem's
  \<^verbatim>\<open>set_context\<close> would do; the call returns 0 exactly when the read returned the
  full size of a context and the stored context and the proposed policy have equal
  descriptors, equal filename modes, equal flags with no bit masked, and content modes
  that are equal or a stored hardware-private mode on a hardware-capable filesystem; and
  a stored context and a policy whose flags differ in any bit, the IV-derivation-variant
  bit included, are a conflict: the call returns \<open>-EEXIST\<close>.\<close>

theorem set_policy_existing_context:
  assumes "inode_owner_or_capable e inode" and "pol_version policy = 0"
    and "mnt_want_write_file e inode = 0"
    and "get_context (s_cop e (i_sb inode)) inode sizeof_fscrypt_context = (ret, ctx)"
    and "0 \<le> ret"
  shows "snd (fscrypt_ioctl_set_policy e inode (Some policy)) = inode \<and>
         (fst (fscrypt_ioctl_set_policy e inode (Some policy)) = 0 \<longleftrightarrow>
            ret = 28 \<and>
            take 8 (ctx_master_key_descriptor ctx) = take 8 (pol_master_key_descriptor policy) \<and>
            ctx_filenames_encryption_mode ctx = pol_filenames_encryption_mode policy \<and>
            ctx_flags ctx = pol_flags policy \<and>
            (ctx_contents_encryption_mode ctx = pol_contents_encryption_mode policy \<or>
             (hie_is_capable e (i_sb inode) \<and>
              ctx_contents_encryption_mode ctx = FS_ENCRYPTION_MODE_PRIVATE e))) \<and>
         (ctx_flags ctx \<noteq> pol_flags policy \<longrightarrow>
            fst (fscrypt_ioctl_set_policy e inode (Some policy)) = - EEXIST)"
proof -
  from assms(5) have nd: "ret \<noteq> - ENODATA" by (simp add: ENODATA_def)
  note r = set_policy_read [OF assms(1-4) nd]
  show ?thesis
    using assms(5) by (auto simp: r consistent_unfold EEXIST_def)
qed

text \<open>A witness of C1 as amended: on the hardware-capable super block a directory stores
  the hardware-private mode with no flag, and the policy declares the standard mode with
  no flag. The call returns 0 and leaves the inode as it was.\<close>

theorem set_policy_existing_context_witness:
  "inode_owner_or_capable sample_env
     (sample_inode 0x41ED 1 None (Some (sample_context 127 0))) \<and>
   pol_version (sample_policy 1 0) = 0 \<and>
   mnt_want_write_file sample_env
     (sample_inode 0x41ED 1 None (Some (sample_context 127 0))) = 0 \<and>
   get_context (s_cop sample_env 1)
     (sample_inode 0x41ED 1 None (Some (sample_context 127 0))) sizeof_fscrypt_context =
     (28, sample_context 127 0) \<and>
   fscrypt_ioctl_set_policy sample_env
     (sample_inode 0x41ED 1 None (Some (sample_context 127 0))) (Some (sample_policy 1 0)) =
   (0, sample_inode 0x41ED 1 None (Some (sample_context 127 0)))"
proof -
  let ?i = "sample_inode 0x41ED 1 None (Some (sample_context 127 0))"
  have a: "inode_owner_or_capable sample_env ?i"
    by (simp add: sample_defs)
  have b: "pol_version (sample_policy 1 0) = 0"
    by (simp add: sample_defs)
  have c: "mnt_want_write_file sample_env ?i = 0"
    by (simp add: sample_defs)
  have d: "get_context (s_cop sample_env (i_sb ?i)) ?i sizeof_fscrypt_context =
             (28, sample_context 127 0)"
    by (simp add: sample_defs size_defs)
  have d': "i_sb ?i = 1"
    by (simp add: sample_defs)
  have f: "(0::int) \<le> 28"
    by simp
  from set_policy_existing_context [OF a b c d f] a b c d [unfolded d']
  show ?thesis
    by (simp add: sample_defs prod_eq_iff)
qed

text \<open>C6. For every call of \<^verbatim>\<open>fscrypt_ioctl_set_policy\<close> that passes the checks of
  the caller, the version and the mount: if the read of the stored context returns a full
  record that does not compare equal to the proposed policy (under the comparison of the
  code, or under the one of section 4.2 with the IV-derivation-variant flag masked), or a
  size that is not the size of a context, or the error of an oversized record, the call
  returns \<open>-EEXIST\<close> and the inode is left as it was.\<close>

theorem set_policy_conflict:
  assumes "inode_owner_or_capable e inode" and "pol_version policy = 0"
    and "mnt_want_write_file e inode = 0"
    and "get_context (s_cop e (i_sb inode)) inode sizeof_fscrypt_context = (ret, ctx)"
    and "(ret = 28 \<and> \<not> is_encryption_context_consistent_with_policy e ctx policy inode) \<or>
         (ret = 28 \<and>
          \<not> sameEffectivePolicy_spec (FS_ENCRYPTION_MODE_PRIVATE e)
              (hie_is_capable e (i_sb inode)) ctx policy (FS_POLICY_FLAG_IV_INO_LBLK_32 e)) \<or>
         (0 \<le> ret \<and> ret \<noteq> 28) \<or> ret = - ERANGE"
  shows "fscrypt_ioctl_set_policy e inode (Some policy) = (- EEXIST, inode)"
proof -
  from assms(5) have nd: "ret \<noteq> - ENODATA" by (auto simp: errno_defs)
  note r = set_policy_read [OF assms(1-4) nd]
  from assms(5) consistent_imp_spec [of e ctx policy inode "FS_POLICY_FLAG_IV_INO_LBLK_32 e"]
  show ?thesis by (auto simp: r errno_defs)
qed

text \<open>A witness of C6: on a super block that is not hardware-capable, a directory stores
  the hardware-private mode and the policy declares the standard mode.\<close>

theorem set_policy_conflict_witness:
  "inode_owner_or_capable sample_env
     (sample_inode 0x41ED 0 None (Some (sample_context 127 0))) \<and>
   pol_version (sample_policy 1 0) = 0 \<and>
   mnt_want_write_file sample_env
     (sample_inode 0x41ED 0 None (Some (sample_context 127 0))) = 0 \<and>
   get_context (s_cop sample_env 0)
     (sample_inode 0x41ED 0 None (Some (sample_context 127 0))) sizeof_fscrypt_context =
     (28, sample_context 127 0) \<and>
   \<not> is_encryption_context_consistent_with_policy sample_env (sample_context 127 0)
       (sample_policy 1 0) (sample_inode 0x41ED 0 None (Some (sample_context 127 0))) \<and>
   fscrypt_ioctl_set_policy sample_env
     (sample_inode 0x41ED 0 None (Some (sample_context 127 0))) (Some (sample_policy 1 0)) =
   (- EEXIST, sample_inode 0x41ED 0 None (Some (sample_context 127 0)))"
proof -
  let ?i = "sample_inode 0x41ED 0 None (Some (sample_context 127 0))"
  have a: "inode_owner_or_capable sample_env ?i"
    by (simp add: sample_defs)
  have b: "pol_version (sample_policy 1 0) = 0"
    by (simp add: sample_defs)
  have c: "mnt_want_write_file sample_env ?i = 0"
    by (simp add: sample_defs)
  have d: "get_context (s_cop sample_env (i_sb ?i)) ?i sizeof_fscrypt_context =
             (28, sample_context 127 0)"
    by (simp add: sample_defs size_defs)
  have d': "i_sb ?i = 0"
    by (simp add: sample_defs)
  have n: "\<not> is_encryption_context_consistent_with_policy sample_env (sample_context 127 0)
             (sample_policy 1 0) ?i"
    by (simp add: is_encryption_context_consistent_with_policy_def sample_defs)
  from n have h: "(28 = (28::int) \<and>
       \<not> is_encryption_context_consistent_with_policy sample_env (sample_context 127 0)
           (sample_policy 1 0) ?i) \<or>
      (28 = (28::int) \<and>
       \<not> sameEffectivePolicy_spec (FS_ENCRYPTION_MODE_PRIVATE sample_env)
           (hie_is_capable sample_env (i_sb ?i)) (sample_context 127 0) (sample_policy 1 0)
           (FS_POLICY_FLAG_IV_INO_LBLK_32 sample_env)) \<or>
      (0 \<le> (28::int) \<and> 28 \<noteq> (28::int)) \<or> (28::int) = - ERANGE"
    by simp
  from set_policy_conflict [OF a b c d h] a b c d [unfolded d'] n
  show ?thesis by simp
qed

text \<open>C10, as stated, fails. The read of the stored context of a directory fails with
  \<open>-EEXIST\<close>, an error that is neither \<open>-ENODATA\<close> nor \<open>-ERANGE\<close>; the call passes the
  checks of the caller, the version and the mount. It returns that error unchanged and
  writes nothing, so its result is \<open>-EEXIST\<close>.\<close>

theorem set_policy_read_error_counterexample:
  "inode_owner_or_capable (read_error_env (- EEXIST)) (sample_inode 0x41ED 0 None None) \<and>
   pol_version (sample_policy 1 0) = 0 \<and>
   mnt_want_write_file (read_error_env (- EEXIST)) (sample_inode 0x41ED 0 None None) = 0 \<and>
   get_context (s_cop (read_error_env (- EEXIST)) 0) (sample_inode 0x41ED 0 None None)
     sizeof_fscrypt_context = (- EEXIST, zero_context) \<and>
   - EEXIST < 0 \<and> - EEXIST \<noteq> - ENODATA \<and> - EEXIST \<noteq> - ERANGE \<and>
   fscrypt_ioctl_set_policy (read_error_env (- EEXIST)) (sample_inode 0x41ED 0 None None)
     (Some (sample_policy 1 0)) =
   (- EEXIST, sample_inode 0x41ED 0 None None)"
  by (simp add: fscrypt_ioctl_set_policy_def sample_defs errno_defs size_defs)

text \<open>C10, as amended. For every call of \<^verbatim>\<open>fscrypt_ioctl_set_policy\<close> that passes
  the checks of the caller, the version and the mount: if the read of the stored context
  returns an error (a negative value) that is neither \<open>-ENODATA\<close> nor \<open>-ERANGE\<close>, the
  call returns that very value and the inode as it was. Nothing is created, and the
  result is \<open>-EEXIST\<close> exactly when the read itself returned \<open>-EEXIST\<close>: no other error
  is turned into it.\<close>

theorem set_policy_read_error:
  assumes "inode_owner_or_capable e inode" and "pol_version policy = 0"
    and "mnt_want_write_file e inode = 0"
    and "get_context (s_cop e (i_sb inode)) inode sizeof_fscrypt_context = (ret, ctx)"
    and "ret < 0" and "ret \<noteq> - ENODATA" and "ret \<noteq> - ERANGE"
  shows "fscrypt_ioctl_set_policy e inode (Some policy) = (ret, inode) \<and>
         (fst (fscrypt_ioctl_set_policy e inode (Some policy)) = - EEXIST \<longleftrightarrow>
            ret = - EEXIST)"
proof -
  note r = set_policy_read [OF assms(1-4,6)]
  from assms(5,7) have "fscrypt_ioctl_set_policy e inode (Some policy) = (ret, inode)"
    by (simp add: r)
  then show ?thesis
    by simp
qed

text \<open>A witness of C10 as amended: the read of the context fails with \<open>-5\<close> (\<open>-EIO\<close>) on
  a directory; the call returns \<open>-5\<close>, which is not \<open>-EEXIST\<close>, and the directory is
  still without a context.\<close>

theorem set_policy_read_error_witness:
  "inode_owner_or_capable (read_error_env (- 5)) (sample_inode 0x41ED 0 None None) \<and>
   pol_version (sample_policy 1 0) = 0 \<and>
   mnt_want_write_file (read_error_env (- 5)) (sample_inode 0x41ED 0 None None) = 0 \<and>
   get_context (s_cop (read_error_env (- 5)) 0) (sample_inode 0x41ED 0 None None)
     sizeof_fscrypt_context = (- 5, zero_context) \<and>
   - 5 < (0::int) \<and> - 5 \<noteq> - ENODATA \<and> - 5 \<noteq> - ERANGE \<and>
   fscrypt_ioctl_set_policy (read_error_env (- 5)) (sample_inode 0x41ED 0 None None)
     (Some (sample_policy 1 0)) =
   (- 5, sample_inode 0x41ED 0 None None) \<and>
   fst (fscrypt_ioctl_set_policy (read_error_env (- 5)) (sample_inode 0x41ED 0 None None)
          (Some (sample_policy 1 0))) \<noteq> - EEXIST"
proof -
  let ?i = "sample_inode 0x41ED 0 None None :: fscrypt_context option inode"
  let ?e = "read_error_env (- 5)"
  have a: "inode_owner_or_capable ?e ?i"
    by (simp add: sample_defs)
  have b: "pol_version (sample_policy 1 0) = 0"
    by (simp add: sample_defs)
  have c: "mnt_want_write_file ?e ?i = 0"
    by (simp add: sample_defs)
  have d: "get_context (s_cop ?e (i_sb ?i)) ?i sizeof_fscrypt_context = (- 5, zero_context)"
    by (simp add: sample_defs)
  have d': "i_sb ?i = 0"
    by (simp add: sample_defs)
  have f: "- 5 < (0::int)" "- 5 \<noteq> - ENODATA" "- 5 \<noteq> - ERANGE"
    by (simp_all add: errno_defs)
  have g: "- 5 \<noteq> - EEXIST"
    by (simp add: errno_defs)
  from set_policy_read_error [OF a b c d f] a b c d [unfolded d'] f g
  show ?thesis
    by simp
qed

subsection \<open>The comparison of a stored context with a proposed policy\<close>

text \<open>C4. On a hardware-capable filesystem a stored context whose content mode is the
  hardware-private mode is consistent with a policy that declares any content mode, the
  descriptors, the filename modes and the flags being equal; and when the stored content
  mode is not the hardware-private mode and differs from the declared one, the two are
  not consistent, whatever the declared mode is, the hardware-private mode included, and
  whatever the filesystem is capable of.\<close>

theorem consistent_hardware_substitution:
  "(hie_is_capable e (i_sb inode) \<and>
    ctx_contents_encryption_mode ctx = FS_ENCRYPTION_MODE_PRIVATE e \<and>
    memcmp_eq (ctx_master_key_descriptor ctx) (pol_master_key_descriptor policy)
      FS_KEY_DESCRIPTOR_SIZE \<and>
    ctx_filenames_encryption_mode ctx = pol_filenames_encryption_mode policy \<and>
    ctx_flags ctx = pol_flags policy
    \<longrightarrow> is_encryption_context_consistent_with_policy e ctx policy inode) \<and>
   (ctx_contents_encryption_mode ctx \<noteq> FS_ENCRYPTION_MODE_PRIVATE e \<and>
    ctx_contents_encryption_mode ctx \<noteq> pol_contents_encryption_mode policy
    \<longrightarrow> \<not> is_encryption_context_consistent_with_policy e ctx policy inode)"
  by (simp add: is_encryption_context_consistent_with_policy_def)

text \<open>A witness of C4, on the hardware-capable super block: stored hardware-private mode
  against the declared standard mode is consistent, stored standard mode against the
  declared hardware-private mode is not.\<close>

theorem consistent_hardware_substitution_witness:
  "hie_is_capable sample_env (i_sb (sample_inode 0x41ED 1 None None)) \<and>
   is_encryption_context_consistent_with_policy sample_env (sample_context 127 0)
     (sample_policy 1 0) (sample_inode 0x41ED 1 None None) \<and>
   \<not> is_encryption_context_consistent_with_policy sample_env (sample_context 1 0)
       (sample_policy 127 0) (sample_inode 0x41ED 1 None None)"
  using consistent_hardware_substitution [of sample_env "sample_inode 0x41ED 1 None None"
      "sample_context 127 0" "sample_policy 1 0"]
    consistent_hardware_substitution [of sample_env "sample_inode 0x41ED 1 None None"
      "sample_context 1 0" "sample_policy 127 0"]
  by (simp add: sample_defs memcmp_eq_def)

text \<open>C3, as stated, fails for the comparison that \<^verbatim>\<open>fscrypt_ioctl_set_policy\<close>
  uses. On the hardware-capable super block, the record with the hardware-private mode
  taken as the stored context and the record with the standard mode taken as the policy
  are consistent; with the two records exchanged they are not.\<close>

theorem comparison_symmetry_counterexample:
  "is_encryption_context_consistent_with_policy sample_env (sample_context 127 0)
     (sample_policy 1 0) (sample_inode 0x41ED 1 None None) \<noteq>
   is_encryption_context_consistent_with_policy sample_env (sample_context 1 0)
     (sample_policy 127 0) (sample_inode 0x41ED 1 None None)"
  by (simp add: is_encryption_context_consistent_with_policy_def sample_defs memcmp_eq_def)

text \<open>C3, as amended. The two comparisons of a parent with a child in
  \<^verbatim>\<open>fscrypt_has_permitted_context\<close> (on resolved infos and on contexts) are
  symmetric. The comparison of a stored context with a proposed policy is symmetric, the
  compared fields of the two records being exchanged, on a filesystem that is not
  hardware-capable; on a capable one it is one-directional: a stored hardware-private
  mode stands for any declared mode, and no stored mode stands for a declared
  hardware-private mode.\<close>

theorem comparison_symmetry:
  "same_policy_infos e a b = same_policy_infos e b a \<and>
   same_policy_contexts e c d = same_policy_contexts e d c \<and>
   (\<not> hie_is_capable e (i_sb inode) \<longrightarrow>
      is_encryption_context_consistent_with_policy e ctx policy inode =
      is_encryption_context_consistent_with_policy e
        (ctx\<lparr> ctx_contents_encryption_mode := pol_contents_encryption_mode policy,
              ctx_filenames_encryption_mode := pol_filenames_encryption_mode policy,
              ctx_flags := pol_flags policy,
              ctx_master_key_descriptor := pol_master_key_descriptor policy \<rparr>)
        (policy\<lparr> pol_contents_encryption_mode := ctx_contents_encryption_mode ctx,
                 pol_filenames_encryption_mode := ctx_filenames_encryption_mode ctx,
                 pol_flags := ctx_flags ctx,
                 pol_master_key_descriptor := ctx_master_key_descriptor ctx \<rparr>)
        inode)"
  by (auto simp: same_policy_infos_def same_policy_contexts_def
      is_encryption_context_consistent_with_policy_def memcmp_eq_def)

text \<open>A witness of C3 as amended: two infos and two contexts that differ in the
  IV-derivation-variant flag only are the same policy in both orders, and on the super
  block that is not hardware-capable the hardware-private and the standard mode are
  inconsistent in both orders.\<close>

theorem comparison_symmetry_witness:
  "same_policy_infos sample_env (sample_info 127 0) (sample_info 127 0x10) \<and>
   same_policy_infos sample_env (sample_info 127 0x10) (sample_info 127 0) \<and>
   same_policy_contexts sample_env (sample_context 127 0) (sample_context 127 0x10) \<and>
   same_policy_contexts sample_env (sample_context 127 0x10) (sample_context 127 0) \<and>
   \<not> hie_is_capable sample_env (i_sb (sample_inode 0x41ED 0 None None)) \<and>
   \<not> is_encryption_context_consistent_with_policy sample_env (sample_context 127 0)
       (sample_policy 1 0) (sample_inode 0x41ED 0 None None) \<and>
   \<not> is_encryption_context_consistent_with_policy sample_env (sample_context 1 0)
       (sample_policy 127 0) (sample_inode 0x41ED 0 None None)"
proof -
  have s: "same_policy_infos sample_env (sample_info 127 0) (sample_info 127 0x10)"
      "same_policy_contexts sample_env (sample_context 127 0) (sample_context 127 0x10)"
    by (simp_all add: same_policy_infos_def same_policy_contexts_def sample_defs memcmp_eq_def)
  have n: "\<not> hie_is_capable sample_env (i_sb (sample_inode 0x41ED 0 None None))"
      "\<not> is_encryption_context_consistent_with_policy sample_env (sample_context 127 0)
          (sample_policy 1 0) (sample_inode 0x41ED 0 None None)"
    by (simp_all add: is_encryption_context_consistent_with_policy_def sample_defs)
  have sw: "(sample_context 127 0)
        \<lparr> ctx_contents_encryption_mode := pol_contents_encryption_mode (sample_policy 1 0),
          ctx_filenames_encryption_mode := pol_filenames_encryption_mode (sample_policy 1 0),
          ctx_flags := pol_flags (sample_policy 1 0),
          ctx_master_key_descriptor := pol_master_key_descriptor (sample_policy 1 0) \<rparr> =
        sample_context 1 0"
       "(sample_policy 1 0)
        \<lparr> pol_contents_encryption_mode := ctx_contents_encryption_mode (sample_context 127 0),
          pol_filenames_encryption_mode := ctx_filenames_encryption_mode (sample_context 127 0),
          pol_flags := ctx_flags (sample_context 127 0),
          pol_master_key_descriptor := ctx_master_key_descriptor (sample_context 127 0) \<rparr> =
        sample_policy 127 0"
    by (simp_all add: sample_defs)
  from comparison_symmetry [of sample_env "sample_info 127 0" "sample_info 127 0x10"
      "sample_context 127 0" "sample_context 127 0x10" "sample_inode 0x41ED 0 None None"
      "sample_context 127 0" "sample_policy 1 0"] s n
  show ?thesis
    by (simp add: sw)
qed

subsection \<open>Building a context from a policy\<close>

text \<open>C7, as stated, fails. On the hardware-capable super block the policy declares the
  standard mode with the IV-derivation-variant flag. Its effective content mode, the one
  that would be stored, is the hardware-private mode, the mode pair is valid and the flags
  are valid; \<^verbatim>\<open>create_encryption_context_from_policy\<close> rejects the flag all the
  same, with \<open>-EINVAL\<close>, and writes nothing.\<close>

theorem create_context_effective_mode_counterexample:
  "fscrypt_data_crypt_mode sample_env (sample_inode 0x41ED 1 None None)
     (pol_contents_encryption_mode (sample_policy 1 0x10)) =
     FS_ENCRYPTION_MODE_PRIVATE sample_env \<and>
   fscrypt_valid_enc_modes sample_env (pol_contents_encryption_mode (sample_policy 1 0x10))
     (pol_filenames_encryption_mode (sample_policy 1 0x10)) \<and>
   pol_flags (sample_policy 1 0x10) AND NOT (FS_POLICY_FLAGS_VALID sample_env) = 0 \<and>
   create_encryption_context_from_policy sample_env (sample_inode 0x41ED 1 None None)
     (sample_policy 1 0x10) = (- EINVAL, sample_inode 0x41ED 1 None None)"
  by (simp add: create_encryption_context_from_policy_def sample_defs)

text \<open>C7, as amended. \<^verbatim>\<open>create_encryption_context_from_policy\<close> returns
  \<open>-EINVAL\<close>, and leaves the inode as it was, for every policy whose flags include the
  IV-derivation-variant bit and whose declared content mode is not the hardware-private
  mode; and when the declared content mode is the hardware-private mode, the mode pair is
  valid and the flags are valid, the flag is not rejected: the context is built, with the
  policy's flags, and handed to the filesystem, whose result is returned.\<close>

theorem create_context_iv_flag:
  "(pol_flags policy AND FS_POLICY_FLAG_IV_INO_LBLK_32 e \<noteq> 0 \<and>
    pol_contents_encryption_mode policy \<noteq> FS_ENCRYPTION_MODE_PRIVATE e
    \<longrightarrow> create_encryption_context_from_policy e inode policy = (- EINVAL, inode)) \<and>
   (fscrypt_valid_enc_modes e (pol_contents_encryption_mode policy)
      (pol_filenames_encryption_mode policy) \<and>
    pol_flags policy AND NOT (FS_POLICY_FLAGS_VALID e) = 0 \<and>
    pol_contents_encryption_mode policy = FS_ENCRYPTION_MODE_PRIVATE e
    \<longrightarrow> create_encryption_context_from_policy e inode policy =
          set_context (s_cop e (i_sb inode)) inode
            \<lparr> ctx_format = FS_ENCRYPTION_CONTEXT_FORMAT_V1 e,
              ctx_contents_encryption_mode =
                fscrypt_data_crypt_mode e inode (FS_ENCRYPTION_MODE_PRIVATE e),
              ctx_filenames_encryption_mode = pol_filenames_encryption_mode policy,
              ctx_flags = pol_flags policy,
              ctx_master_key_descriptor = take 8 (pol_master_key_descriptor policy),
              ctx_nonce = get_random_bytes e 16 \<rparr> 28 None)"
  by (auto simp: create_encryption_context_from_policy_def size_defs)

text \<open>A witness of C7 as amended: with the flag, the declared hardware-private mode is
  written and the declared standard mode is rejected.\<close>

theorem create_context_iv_flag_witness:
  "pol_flags (sample_policy 127 0x10) AND FS_POLICY_FLAG_IV_INO_LBLK_32 sample_env \<noteq> 0 \<and>
   create_encryption_context_from_policy sample_env (sample_inode 0x41ED 0 None None)
     (sample_policy 127 0x10) =
   (0, sample_inode 0x41ED 0 None (Some (sample_context 127 0x10))) \<and>
   create_encryption_context_from_policy sample_env (sample_inode 0x41ED 0 None None)
     (sample_policy 1 0x10) = (- EINVAL, sample_inode 0x41ED 0 None None)"
  using create_context_iv_flag [of "sample_policy 127 0x10" sample_env
      "sample_inode 0x41ED 0 None None"]
    create_context_iv_flag [of "sample_policy 1 0x10" sample_env
      "sample_inode 0x41ED 0 None None"]
  by (simp add: sample_defs)

subsection \<open>Reporting a policy\<close>

text \<open>C8. When \<^verbatim>\<open>fscrypt_ioctl_get_policy\<close> reports a policy (the inode is
  encrypted, the read returns a full context of format V1, the user's buffer is
  writable): for a directory whose stored content mode is not the invalid mode the
  reported content mode is the AES-256-XTS mode, hence not the hardware-private mode, the
  two being different constants; for an inode that is not a directory the reported content
  mode is the stored one.\<close>

theorem get_policy_reported_mode:
  assumes "IS_ENCRYPTED inode"
    and "get_context (s_cop e (i_sb inode)) inode sizeof_fscrypt_context = (28, ctx)"
    and "ctx_format ctx = FS_ENCRYPTION_CONTEXT_FORMAT_V1 e"
  shows "\<exists>policy. fscrypt_ioctl_get_policy e inode True = (0, Some policy) \<and>
           (S_ISDIR (i_mode inode) \<and>
            ctx_contents_encryption_mode ctx \<noteq> FS_ENCRYPTION_MODE_INVALID e \<longrightarrow>
              pol_contents_encryption_mode policy = FS_ENCRYPTION_MODE_AES_256_XTS e \<and>
              (FS_ENCRYPTION_MODE_AES_256_XTS e \<noteq> FS_ENCRYPTION_MODE_PRIVATE e \<longrightarrow>
                 pol_contents_encryption_mode policy \<noteq> FS_ENCRYPTION_MODE_PRIVATE e)) \<and>
           (\<not> S_ISDIR (i_mode inode) \<longrightarrow>
              pol_contents_encryption_mode policy = ctx_contents_encryption_mode ctx)"
  using assms by (simp add: fscrypt_ioctl_get_policy_def size_defs Let_def)

text \<open>A witness of C8: a directory and a regular file that both store the hardware-private
  mode report the standard mode and the hardware-private mode.\<close>

theorem get_policy_reported_mode_witness:
  "IS_ENCRYPTED (sample_inode 0x41ED 1 None (Some (sample_context 127 0))) \<and>
   S_ISDIR (i_mode (sample_inode 0x41ED 1 None (Some (sample_context 127 0)))) \<and>
   fscrypt_ioctl_get_policy sample_env
     (sample_inode 0x41ED 1 None (Some (sample_context 127 0))) True =
     (0, Some (sample_policy 1 0)) \<and>
   \<not> S_ISDIR (i_mode (sample_inode 0x81A4 1 None (Some (sample_context 127 0)))) \<and>
   fscrypt_ioctl_get_policy sample_env
     (sample_inode 0x81A4 1 None (Some (sample_context 127 0))) True =
     (0, Some (sample_policy 127 0))"
proof -
  let ?d = "sample_inode 0x41ED 1 None (Some (sample_context 127 0))"
  let ?f = "sample_inode 0x81A4 1 None (Some (sample_context 127 0))"
  have a: "IS_ENCRYPTED ?d" "IS_ENCRYPTED ?f"
    by (simp_all add: sample_defs)
  have b: "get_context (s_cop sample_env (i_sb ?d)) ?d sizeof_fscrypt_context =
             (28, sample_context 127 0)"
      "get_context (s_cop sample_env (i_sb ?f)) ?f sizeof_fscrypt_context =
             (28, sample_context 127 0)"
    by (simp_all add: sample_defs size_defs)
  have c: "ctx_format (sample_context 127 0) = FS_ENCRYPTION_CONTEXT_FORMAT_V1 sample_env"
    by (simp add: sample_defs)
  have m: "S_ISDIR (i_mode ?d)" "\<not> S_ISDIR (i_mode ?f)"
    by (simp_all add: sample_defs stat_defs)
  have v: "fscrypt_ioctl_get_policy sample_env ?d True = (0, Some (sample_policy 1 0))"
      "fscrypt_ioctl_get_policy sample_env ?f True = (0, Some (sample_policy 127 0))"
    by (simp_all add: fscrypt_ioctl_get_policy_def sample_defs size_defs stat_defs)
  from get_policy_reported_mode [OF a(1) b(1) c] get_policy_reported_mode [OF a(2) b(2) c]
    a m v
  show ?thesis by simp
qed

subsection \<open>Binding a block request\<close>

text \<open>C2, as stated, fails. A regular file has a resolved crypto info with the
  hardware-private mode, and the crypto info accessor returns no reference. The call
  returns 0, success; the request leaves marked for hardware encryption with an empty
  info reference, and one warning is logged.\<close>

theorem set_bio_ctx_empty_reference_counterexample:
  "S_ISREG (i_mode (sample_inode 0x81A4 1 (Some (sample_info 127 0))
                       (Some (sample_context 127 0)))) \<and>
   fscrypt_set_bio_ctx (sample_env\<lparr>fscrypt_crypt_info_act := \<lambda>ci act. None\<rparr>)
     (Some (sample_inode 0x81A4 1 (Some (sample_info 127 0)) (Some (sample_context 127 0))))
     (Some sample_bio) =
   (0,
    Some \<lparr> bi_crypt_ctx =
             \<lparr> bc_flags = 5, bc_key_size = 64, bc_ino = 12, bc_sb = Some 1,
               bc_info_act = True, bc_info = None, hashed_info = 0 \<rparr> \<rparr>,
    [WARN_ON_no_bc_info])"
  by (simp add: fscrypt_set_bio_ctx_def bio_bcf_set_def sample_defs stat_defs Let_def)

text \<open>C2, as amended. When \<^verbatim>\<open>fscrypt_set_bio_ctx\<close> runs on a regular file whose
  resolved crypto info uses the hardware-private mode and the info reference comes back
  empty, the call logs a warning for it and returns success all the same: the request
  is marked for hardware encryption and its info reference is empty.\<close>

theorem set_bio_ctx_empty_reference:
  assumes "S_ISREG (i_mode inode)" and "i_crypt_info inode = Some ci"
    and "ci_data_mode ci = FS_ENCRYPTION_MODE_PRIVATE e"
    and "fscrypt_crypt_info_act e ci (BIO_BC_INFO_GET e) = None"
  shows "\<exists>b' ws. fscrypt_set_bio_ctx e (Some inode) (Some b) = (0, Some b', ws) \<and>
           WARN_ON_no_bc_info \<in> set ws \<and>
           bc_info (bi_crypt_ctx b') = None \<and>
           bc_flags (bi_crypt_ctx b') =
             bc_flags (bi_crypt_ctx b) OR (BC_CRYPT e OR BC_AES_256_XTS e)"
  using assms by (simp add: fscrypt_set_bio_ctx_def bio_bcf_set_def Let_def)

text \<open>A witness of C2 as amended, at the input of the counterexample.\<close>

theorem set_bio_ctx_empty_reference_witness:
  "S_ISREG (i_mode (sample_inode 0x81A4 1 (Some (sample_info 127 0))
                       (Some (sample_context 127 0)))) \<and>
   ci_data_mode (sample_info 127 0) = FS_ENCRYPTION_MODE_PRIVATE sample_env \<and>
   fst (fscrypt_set_bio_ctx (sample_env\<lparr>fscrypt_crypt_info_act := \<lambda>ci act. None\<rparr>)
     (Some (sample_inode 0x81A4 1 (Some (sample_info 127 0)) (Some (sample_context 127 0))))
     (Some sample_bio)) = 0"
proof -
  let ?e = "sample_env\<lparr>fscrypt_crypt_info_act := \<lambda>ci act. None\<rparr>"
  let ?i = "sample_inode 0x81A4 1 (Some (sample_info 127 0)) (Some (sample_context 127 0))"
  have a: "S_ISREG (i_mode ?i)"
    by (simp add: sample_defs stat_defs)
  have b: "i_crypt_info ?i = Some (sample_info 127 0)"
    by (simp add: sample_defs)
  have c: "ci_data_mode (sample_info 127 0) = FS_ENCRYPTION_MODE_PRIVATE ?e"
    by (simp add: sample_defs)
  have d: "fscrypt_crypt_info_act ?e (sample_info 127 0) (BIO_BC_INFO_GET ?e) = None"
    by simp
  from set_bio_ctx_empty_reference [OF a b c d, of sample_bio] a c
  show ?thesis by auto
qed

subsection \<open>The permitted-context check fails closed\<close>

text \<open>C5. \<^verbatim>\<open>fscrypt_has_permitted_context\<close> returns 0 or 1, never an error. When
  the child is of a type that can be encrypted (a regular file, a directory or a symbolic
  link; for any other type the function returns before it resolves or reads anything) and
  parent and child are both encrypted: if the key setup of the parent or of the child
  returns an error, the result is 0; and if both succeed, one of the two crypto infos is
  missing, so that the stored contexts are read, and the read of the parent's or of the
  child's context returns anything but the full size of a context (an error included),
  the result is 0.\<close>

theorem has_permitted_context_fails_closed:
  "(fst (fscrypt_has_permitted_context e parent child) = 0 \<or>
    fst (fscrypt_has_permitted_context e parent child) = 1) \<and>
   ((S_ISREG (i_mode child) \<or> S_ISDIR (i_mode child) \<or> S_ISLNK (i_mode child)) \<and>
    IS_ENCRYPTED parent \<and> IS_ENCRYPTED child \<longrightarrow>
      (fst (fscrypt_get_encryption_info e parent) \<noteq> 0 \<or>
       fst (fscrypt_get_encryption_info e child) \<noteq> 0 \<longrightarrow>
         fst (fscrypt_has_permitted_context e parent child) = 0) \<and>
      (fst (fscrypt_get_encryption_info e parent) = 0 \<and>
       fst (fscrypt_get_encryption_info e child) = 0 \<and>
       (i_crypt_info (snd (fscrypt_get_encryption_info e parent)) = None \<or>
        i_crypt_info (snd (fscrypt_get_encryption_info e child)) = None) \<and>
       (fst (get_context (s_cop e (i_sb parent)) (snd (fscrypt_get_encryption_info e parent))
               sizeof_fscrypt_context) \<noteq> 28 \<or>
        fst (get_context (s_cop e (i_sb parent)) (snd (fscrypt_get_encryption_info e child))
               sizeof_fscrypt_context) \<noteq> 28) \<longrightarrow>
         fst (fscrypt_has_permitted_context e parent child) = 0))"
  by (auto simp: fscrypt_has_permitted_context_def size_defs Let_def
      split: prod.splits option.splits)

text \<open>A witness of C5: an encrypted directory and an encrypted regular file in it, once
  with a key setup that fails with \<open>-ENOKEY\<close>, once with a read that returns 12 bytes.\<close>

theorem has_permitted_context_fails_closed_witness:
  "S_ISREG (i_mode (sample_inode 0x81A4 0 None (Some (sample_context 1 0)))) \<and>
   IS_ENCRYPTED (sample_inode 0x41ED 0 None (Some (sample_context 1 0))) \<and>
   IS_ENCRYPTED (sample_inode 0x81A4 0 None (Some (sample_context 1 0))) \<and>
   fst (fscrypt_get_encryption_info
          (sample_env\<lparr>fscrypt_get_encryption_info := \<lambda>inode. (- ENOKEY, inode)\<rparr>)
          (sample_inode 0x41ED 0 None (Some (sample_context 1 0)))) \<noteq> 0 \<and>
   fst (fscrypt_has_permitted_context
          (sample_env\<lparr>fscrypt_get_encryption_info := \<lambda>inode. (- ENOKEY, inode)\<rparr>)
          (sample_inode 0x41ED 0 None (Some (sample_context 1 0)))
          (sample_inode 0x81A4 0 None (Some (sample_context 1 0)))) = 0 \<and>
   fst (get_context
          (s_cop (sample_env\<lparr>s_cop := \<lambda>sb. mem_cops\<lparr>get_context := \<lambda>inode len. (12, zero_context)\<rparr>\<rparr>) 0)
          (sample_inode 0x41ED 0 None (Some (sample_context 1 0)))
          sizeof_fscrypt_context) \<noteq> 28 \<and>
   fst (fscrypt_has_permitted_context
          (sample_env\<lparr>s_cop := \<lambda>sb. mem_cops\<lparr>get_context := \<lambda>inode len. (12, zero_context)\<rparr>\<rparr>)
          (sample_inode 0x41ED 0 None (Some (sample_context 1 0)))
          (sample_inode 0x81A4 0 None (Some (sample_context 1 0)))) = 0"
proof -
  let ?p = "sample_inode 0x41ED 0 None (Some (sample_context 1 0))"
  let ?c = "sample_inode 0x81A4 0 None (Some (sample_context 1 0))"
  let ?e1 = "sample_env\<lparr>fscrypt_get_encryption_info := \<lambda>inode. (- ENOKEY, inode)\<rparr>"
  let ?e2 = "sample_env\<lparr>s_cop := \<lambda>sb. mem_cops\<lparr>get_context := \<lambda>inode len. (12, zero_context)\<rparr>\<rparr>"
  have t: "S_ISREG (i_mode ?c)" "IS_ENCRYPTED ?p" "IS_ENCRYPTED ?c"
    by (simp_all add: sample_defs stat_defs)
  have r1: "fst (fscrypt_get_encryption_info ?e1 ?p) \<noteq> 0"
    by (simp add: sample_defs errno_defs)
  have r2: "fst (fscrypt_get_encryption_info ?e2 ?p) = 0"
      "fst (fscrypt_get_encryption_info ?e2 ?c) = 0"
      "i_crypt_info (snd (fscrypt_get_encryption_info ?e2 ?p)) = None"
      "fst (get_context (s_cop ?e2 (i_sb ?p)) (snd (fscrypt_get_encryption_info ?e2 ?p))
              sizeof_fscrypt_context) \<noteq> 28"
      "fst (get_context (s_cop ?e2 0) ?p sizeof_fscrypt_context) \<noteq> 28"
    by (simp_all add: sample_defs)
  from has_permitted_context_fails_closed [of ?e1 ?p ?c] t r1
  have x1: "fst (fscrypt_has_permitted_context ?e1 ?p ?c) = 0"
    by blast
  from has_permitted_context_fails_closed [of ?e2 ?p ?c] t r2
  have x2: "fst (fscrypt_has_permitted_context ?e2 ?p ?c) = 0"
    by blast
  from t r1 r2(5) x1 x2 show ?thesis
    by blast
qed

subsection \<open>The context a child inherits\<close>

text \<open>C9. When the key setup of the parent succeeds and the parent has a crypto info,
  \<^verbatim>\<open>fscrypt_inherit_context\<close> hands to \<^verbatim>\<open>set_context\<close>, whatever the
  operations of the filesystem are, one context for the child: format V1, the descriptor,
  the content mode and the filename mode of the parent's crypto info, a fresh nonce, and
  flags that are the parent's flags with the IV-derivation-variant bit set when the
  content mode is the hardware-private mode and \<^verbatim>\<open>fscrypt_force_iv_ino_lblk_32\<close>
  holds, and the parent's flags unchanged in every other case.\<close>

theorem inherit_context_builds:
  assumes "fscrypt_get_encryption_info e parent = (res, parent1)" and "0 \<le> res"
    and "i_crypt_info parent1 = Some ci"
  shows "\<exists>ctx.
           ctx_format ctx = FS_ENCRYPTION_CONTEXT_FORMAT_V1 e \<and>
           ctx_master_key_descriptor ctx = take 8 (ci_master_key_descriptor ci) \<and>
           ctx_contents_encryption_mode ctx = ci_data_mode ci \<and>
           ctx_filenames_encryption_mode ctx = ci_filename_mode ci \<and>
           ctx_nonce ctx = get_random_bytes e 16 \<and>
           (ci_data_mode ci = FS_ENCRYPTION_MODE_PRIVATE e \<and> fscrypt_force_iv_ino_lblk_32 e
              \<longrightarrow> ctx_flags ctx = ci_flags ci OR FS_POLICY_FLAG_IV_INO_LBLK_32 e \<and>
                  ctx_flags ctx AND FS_POLICY_FLAG_IV_INO_LBLK_32 e =
                    FS_POLICY_FLAG_IV_INO_LBLK_32 e) \<and>
           (\<not> (ci_data_mode ci = FS_ENCRYPTION_MODE_PRIVATE e \<and>
                fscrypt_force_iv_ino_lblk_32 e)
              \<longrightarrow> ctx_flags ctx = ci_flags ci) \<and>
           (\<forall>cops. fscrypt_inherit_context (e\<lparr>s_cop := cops\<rparr>) parent child fs_data preload =
              (case set_context (cops (i_sb parent1)) child ctx sizeof_fscrypt_context
                      fs_data of
                 (r, child1) \<Rightarrow>
                   if r \<noteq> 0 then (r, parent1, child1)
                   else if preload
                   then (case fscrypt_get_encryption_info e child1 of
                           (r2, child2) \<Rightarrow> (r2, parent1, child2))
                   else (0, parent1, child1)))"
proof -
  let ?ctx = "\<lparr> ctx_format = FS_ENCRYPTION_CONTEXT_FORMAT_V1 e,
                ctx_contents_encryption_mode = ci_data_mode ci,
                ctx_filenames_encryption_mode = ci_filename_mode ci,
                ctx_flags =
                  (if ci_data_mode ci = FS_ENCRYPTION_MODE_PRIVATE e \<and>
                      fscrypt_force_iv_ino_lblk_32 e
                   then ci_flags ci OR FS_POLICY_FLAG_IV_INO_LBLK_32 e
                   else ci_flags ci),
                ctx_master_key_descriptor = take 8 (ci_master_key_descriptor ci),
                ctx_nonce = get_random_bytes e 16 \<rparr>"
  have absorb: "(x OR f) AND f = f" for x f :: u8
    by (simp add: bit_eq_iff bit_and_iff bit_or_iff)
  have call: "fscrypt_inherit_context (e\<lparr>s_cop := cops\<rparr>) parent child fs_data preload =
       (case set_context (cops (i_sb parent1)) child ?ctx sizeof_fscrypt_context fs_data of
          (r, child1) \<Rightarrow>
            if r \<noteq> 0 then (r, parent1, child1)
            else if preload
            then (case fscrypt_get_encryption_info e child1 of
                    (r2, child2) \<Rightarrow> (r2, parent1, child2))
            else (0, parent1, child1))" for cops
    using assms
    by (simp add: fscrypt_inherit_context_def fscrypt_force_iv_ino_lblk_32_def size_defs
        Let_def split: prod.splits)
  show ?thesis
    by (rule exI [of _ ?ctx]) (simp add: call absorb)
qed

text \<open>A witness of C9: the parent's crypto info has the hardware-private mode and no
  flag, the boot device requires the flag; the child's stored context has the flag.\<close>

theorem inherit_context_builds_witness:
  "i_crypt_info (sample_inode 0x41ED 1 (Some (sample_info 127 0)) (Some (sample_context 127 0)))
     = Some (sample_info 127 0) \<and>
   ci_flags (sample_info 127 0) AND FS_POLICY_FLAG_IV_INO_LBLK_32 sample_env = 0 \<and>
   fscrypt_force_iv_ino_lblk_32 sample_env \<and>
   fscrypt_inherit_context sample_env
     (sample_inode 0x41ED 1 (Some (sample_info 127 0)) (Some (sample_context 127 0)))
     (sample_inode 0x81A4 1 None None) None False =
   (0, sample_inode 0x41ED 1 (Some (sample_info 127 0)) (Some (sample_context 127 0)),
    sample_inode 0x81A4 1 None (Some (sample_context 127 0x10)))"
proof -
  let ?p = "sample_inode 0x41ED 1 (Some (sample_info 127 0)) (Some (sample_context 127 0))"
  let ?c = "sample_inode 0x81A4 1 None None :: fscrypt_context option inode"
  have a: "fscrypt_get_encryption_info sample_env ?p = (0, ?p)"
    by (simp add: sample_defs)
  have b: "(0::int) \<le> 0"
    by simp
  have c: "i_crypt_info ?p = Some (sample_info 127 0)"
    by (simp add: sample_defs)
  have f: "fscrypt_force_iv_ino_lblk_32 sample_env"
    by (simp add: fscrypt_force_iv_ino_lblk_32_def BOOTDEV_SDMMC_def sample_defs)
  have z: "ci_flags (sample_info 127 0) AND FS_POLICY_FLAG_IV_INO_LBLK_32 sample_env = 0"
    by (simp add: sample_defs)
  have s: "sample_env\<lparr>s_cop := s_cop sample_env\<rparr> = sample_env"
    by simp
  from inherit_context_builds [OF a b c, of ?c None False]
  obtain ctx where
    ctx: "ctx_format ctx = FS_ENCRYPTION_CONTEXT_FORMAT_V1 sample_env"
      "ctx_master_key_descriptor ctx = take 8 (ci_master_key_descriptor (sample_info 127 0))"
      "ctx_contents_encryption_mode ctx = ci_data_mode (sample_info 127 0)"
      "ctx_filenames_encryption_mode ctx = ci_filename_mode (sample_info 127 0)"
      "ctx_nonce ctx = get_random_bytes sample_env 16"
      "ci_data_mode (sample_info 127 0) = FS_ENCRYPTION_MODE_PRIVATE sample_env \<and>
       fscrypt_force_iv_ino_lblk_32 sample_env \<longrightarrow>
         ctx_flags ctx =
           ci_flags (sample_info 127 0) OR FS_POLICY_FLAG_IV_INO_LBLK_32 sample_env \<and>
         ctx_flags ctx AND FS_POLICY_FLAG_IV_INO_LBLK_32 sample_env =
           FS_POLICY_FLAG_IV_INO_LBLK_32 sample_env"
    and run: "\<forall>cops. fscrypt_inherit_context (sample_env\<lparr>s_cop := cops\<rparr>) ?p ?c None False =
       (case set_context (cops (i_sb ?p)) ?c ctx sizeof_fscrypt_context None of
          (r, child1) \<Rightarrow>
            if r \<noteq> 0 then (r, ?p, child1)
            else if False
            then (case fscrypt_get_encryption_info sample_env child1 of
                    (r2, child2) \<Rightarrow> (r2, ?p, child2))
            else (0, ?p, child1))"
    by blast
  have "ctx = sample_context 127 0x10"
    using ctx f by (intro fscrypt_context.equality) (simp_all add: sample_defs)
  with run [rule_format, of "s_cop sample_env"] c z f show ?thesis
    unfolding s by (simp add: sample_defs)
qed

end
